theory Spec2Isabelle
  imports
    Complex_Main
    "HOL-Library.Char_ord"
    "HOL-Library.List_Lexorder"
    "HOL-Library.Product_Lexorder"
begin

section \<open>qpycr: delta-Cq and delta-delta-Cq quantification\<close>

text \<open>
  The module \<^verbatim>\<open>src/qpycr.py\<close> has three functions, \<^verbatim>\<open>calculate_avg_cqs\<close>,
  \<^verbatim>\<open>calculate_d_cqs\<close> and \<^verbatim>\<open>calculate_dd_cqs\<close>, each a chain of pandas calls on a
  data frame of Cq readings. The embedding below follows the three bodies call by call.
  The pandas and numpy operations they use are modelled by what the libraries document:
  group-by sorts the group keys and its \<^verbatim>\<open>mean\<close> and \<^verbatim>\<open>std\<close> aggregations leave
  missing values (NaN) out; \<^verbatim>\<open>drop_duplicates\<close> keeps the first occurrence of a row; a
  left merge keeps the rows of the left frame in their order and fills NaN where the right
  frame has no matching key.
\<close>

subsection \<open>Floating-point values\<close>

text \<open>
  A Cq value is a float that is either NaN (a failed reaction) or a finite number, a cycle
  count. Finite numbers are modelled as reals: rounding and overflow are outside the model,
  and so is a table that holds an infinite value. NaN is absorbing for subtraction and for
  the power, as in IEEE arithmetic. No property below concludes that a value is a number
  except from operands that are finite.
\<close>

datatype float64 = NaN | Fin real

fun isnan :: "float64 \<Rightarrow> bool" where
  "isnan NaN = True"
| "isnan (Fin _) = False"

fun is_finite :: "float64 \<Rightarrow> bool" where
  "is_finite (Fin _) = True"
| "is_finite NaN = False"

text \<open>\<^verbatim>\<open>a - b\<close> on float columns.\<close>

fun fsub :: "float64 \<Rightarrow> float64 \<Rightarrow> float64" where
  "fsub (Fin a) (Fin b) = Fin (a - b)"
| "fsub _ _ = NaN"

text \<open>\<^verbatim>\<open>-a\<close> on a float column.\<close>

fun fneg :: "float64 \<Rightarrow> float64" where
  "fneg (Fin a) = Fin (- a)"
| "fneg NaN = NaN"

text \<open>\<^verbatim>\<open>2 ** a\<close> on a float column.\<close>

fun pow2 :: "float64 \<Rightarrow> float64" where
  "pow2 (Fin a) = Fin (2 powr a)"
| "pow2 NaN = NaN"

subsection \<open>The group-by aggregations\<close>

text \<open>
  The values an aggregation counts: pandas' group-by \<^verbatim>\<open>mean\<close> and \<^verbatim>\<open>std\<close> are
  computed over the non-missing entries of the group only.
\<close>

fun notna :: "float64 list \<Rightarrow> real list" where
  "notna [] = []"
| "notna (NaN # xs) = notna xs"
| "notna (Fin a # xs) = a # notna xs"

text \<open>
  \<^verbatim>\<open>"mean"\<close>: the sum of the counted values over their number; NaN for a group with no
  counted value.
\<close>

definition agg_mean :: "float64 list \<Rightarrow> float64" where
  "agg_mean xs =
     (let v = notna xs in
      if v = [] then NaN else Fin (sum_list v / real (length v)))"

text \<open>
  \<^verbatim>\<open>"std"\<close>: the square root of the variance with \<^verbatim>\<open>ddof=1\<close>, the sum of squared
  deviations from the mean over the number of counted values minus one; NaN when at most
  one value is counted.
\<close>

definition agg_std :: "float64 list \<Rightarrow> float64" where
  "agg_std xs =
     (let v = notna xs; n = length v in
      if n \<le> 1 then NaN
      else (let m = sum_list v / real n in
            Fin (sqrt (sum_list (map (\<lambda>x. (x - m)\<^sup>2) v) / real (n - 1)))))"

subsection \<open>Tables\<close>

text \<open>
  A row of the raw table carries the three columns the functions read. Every later table
  extends the row of the table before it with the columns the code adds.
\<close>

record pair_key =
  sample :: string
  target :: string

record reading = pair_key +
  cq :: float64

record avg_row = pair_key +
  mean :: float64
  std :: float64

record d_row = avg_row +
  mean_ic :: float64
  d_cq :: float64

record dd_row = d_row +
  d_cq_ic :: float64
  dd_cq :: float64
  fc :: float64

text \<open>
  A data frame as the functions receive it: the labels of its columns and its rows. The
  functions read the columns \<^verbatim>\<open>sample\<close>, \<^verbatim>\<open>target\<close> and \<^verbatim>\<open>cq\<close> only, and pandas
  raises before reading any row when one of these labels is not among the columns.
\<close>

record dataframe =
  columns :: "string list"
  rows :: "reading list"

text \<open>The Python values the three functions can be called with.\<close>

datatype pyval =
    DataFrame dataframe
  | PyList "string list"
  | PyTuple "string list"
  | PyStr string
  | PyFloat float64
  | PyNone

datatype error =
    TypeError string
  | KeyError string
  | NameError string
  | AttributeError string

definition key_of :: "'a pair_key_scheme \<Rightarrow> string \<times> string" where
  "key_of r = (sample r, target r)"

subsection \<open>The pandas operations\<close>

text \<open>
  \<^verbatim>\<open>drop_duplicates()\<close> with the default \<^verbatim>\<open>keep="first"\<close>: a row is dropped when an
  equal row has been seen before it.
\<close>

fun drop_seen :: "'a list \<Rightarrow> 'a list \<Rightarrow> 'a list" where
  "drop_seen seen [] = []"
| "drop_seen seen (x # xs) =
     (if x \<in> set seen then drop_seen seen xs else x # drop_seen (x # seen) xs)"

definition drop_duplicates :: "'a list \<Rightarrow> 'a list" where
  "drop_duplicates xs = drop_seen [] xs"

text \<open>
  \<^verbatim>\<open>cqs.groupby(by=["sample", "target"])\<close> raises \<^verbatim>\<open>KeyError\<close> for the first key that
  is not a column; \<^verbatim>\<open>.agg(func={"cq": ["mean", "std"]})\<close> raises \<^verbatim>\<open>KeyError\<close> when
  \<^verbatim>\<open>cq\<close> is not a column. The result, after \<^verbatim>\<open>droplevel\<close> and \<^verbatim>\<open>reset_index\<close>, has
  one row per group, the groups in the sorted order of their keys.
\<close>

definition group_cqs :: "string \<times> string \<Rightarrow> reading list \<Rightarrow> float64 list" where
  "group_cqs k rs = map cq (filter (\<lambda>r. key_of r = k) rs)"

definition groupby_agg :: "dataframe \<Rightarrow> error + avg_row list" where
  "groupby_agg df =
     (if ''sample'' \<notin> set (columns df) then Inl (KeyError ''sample'')
      else if ''target'' \<notin> set (columns df) then Inl (KeyError ''target'')
      else if ''cq'' \<notin> set (columns df) then Inl (KeyError ''cq'')
      else Inr (map (\<lambda>k. \<lparr>sample = fst k, target = snd k,
                           mean = agg_mean (group_cqs k (rows df)),
                           std = agg_std (group_cqs k (rows df))\<rparr>)
                    (sort (remdups (map key_of (rows df))))))"

text \<open>\<^verbatim>\<open>cqs[["sample", "target"]]\<close>: the two key columns, row by row.\<close>

definition getitem_keys :: "dataframe \<Rightarrow> error + (string \<times> string) list" where
  "getitem_keys df =
     (if ''sample'' \<notin> set (columns df) then Inl (KeyError ''sample'')
      else if ''target'' \<notin> set (columns df) then Inl (KeyError ''target'')
      else Inr (map key_of (rows df)))"

text \<open>
  \<^verbatim>\<open>left.merge(right=avg_cqs, how="left", on=["sample", "target"])\<close>: every left row, in
  order, once for each right row with the same key, and once with NaN when there is none.
\<close>

definition merge_keys :: "(string \<times> string) list \<Rightarrow> avg_row list \<Rightarrow> avg_row list" where
  "merge_keys left right =
     concat (map (\<lambda>k.
        (let ms = filter (\<lambda>r. key_of r = k) right in
         if ms = [] then [\<lparr>sample = fst k, target = snd k, mean = NaN, std = NaN\<rparr>]
         else map (\<lambda>r. \<lparr>sample = fst k, target = snd k, mean = mean r, std = std r\<rparr>) ms))
        left)"

subsection \<open>calculate_avg_cqs\<close>

definition calculate_avg_cqs :: "pyval \<Rightarrow> error + avg_row list" where
  "calculate_avg_cqs cqs =
     (case cqs of
        DataFrame df \<Rightarrow>
          (case groupby_agg df of
             Inl e \<Rightarrow> Inl e
           | Inr avg_cqs \<Rightarrow>
               (case getitem_keys df of
                  Inl e \<Rightarrow> Inl e
                | Inr ks \<Rightarrow> Inr (merge_keys (drop_duplicates ks) avg_cqs)))
      | _ \<Rightarrow> Inl (TypeError ''The argument passed to `cqs` must be a `pd.DataFrame`''))"

subsection \<open>calculate_d_cqs\<close>

text \<open>
  \<^verbatim>\<open>avg_cqs[avg_cqs["target"].isin(internal_controls)].groupby(by=["sample"])
  .agg(func={"mean": "mean"}).rename(mapper={"mean": "mean_ic"}, axis=1)\<close>:
  the rows of the control targets, grouped by sample (the samples sorted), with the
  \<^verbatim>\<open>mean\<close> aggregation of the column \<^verbatim>\<open>mean\<close> of each group. The sample is the index
  of the result, \<^verbatim>\<open>mean_ic\<close> its only column.
\<close>

definition control_means :: "string list \<Rightarrow> avg_row list \<Rightarrow> (string \<times> float64) list" where
  "control_means internal_controls avg_cqs =
     (let ctl = filter (\<lambda>r. target r \<in> set internal_controls) avg_cqs in
      map (\<lambda>s. (s, agg_mean (map mean (filter (\<lambda>r. sample r = s) ctl))))
          (sort (remdups (map sample ctl))))"

text \<open>
  \<^verbatim>\<open>avg_cqs.merge(right=avg_ic_cqs, how="left", on="sample")\<close>: every left row, in
  order, paired with the \<^verbatim>\<open>mean_ic\<close> of each right row of its sample, and with NaN when
  there is none.
\<close>

definition merge_sample ::
    "avg_row list \<Rightarrow> (string \<times> float64) list \<Rightarrow> (avg_row \<times> float64) list" where
  "merge_sample left right =
     concat (map (\<lambda>r.
        (let ms = filter (\<lambda>m. fst m = sample r) right in
         if ms = [] then [(r, NaN)] else map (\<lambda>m. (r, snd m)) ms))
        left)"

text \<open>
  \<^verbatim>\<open>np.where(~avg_cqs["target"].isin(internal_controls),
  avg_cqs["mean"] - avg_cqs["mean_ic"], np.NaN)\<close>, row by row, stored as column
  \<^verbatim>\<open>d_cq\<close>.
\<close>

definition assign_d_cq :: "string list \<Rightarrow> avg_row \<times> float64 \<Rightarrow> d_row" where
  "assign_d_cq internal_controls p =
     (case p of (r, mi) \<Rightarrow>
        \<lparr>sample = sample r, target = target r, mean = mean r, std = std r,
         mean_ic = mi,
         d_cq = (if target r \<notin> set internal_controls then fsub (mean r) mi else NaN)\<rparr>)"

definition calculate_d_cqs :: "pyval \<Rightarrow> pyval \<Rightarrow> error + d_row list" where
  "calculate_d_cqs cqs internal_controls =
     (case cqs of
        DataFrame df \<Rightarrow>
          (case internal_controls of
             PyList ics \<Rightarrow>
               (case calculate_avg_cqs cqs of
                  Inl e \<Rightarrow> Inl e
                | Inr avg_cqs \<Rightarrow>
                    Inr (map (assign_d_cq ics)
                           (merge_sample avg_cqs (control_means ics avg_cqs))))
           | _ \<Rightarrow> Inl (TypeError
                ''The argument passed to `internal_controls` must be a `list`''))
      | _ \<Rightarrow> Inl (TypeError ''The argument passed to `cqs` must be a `pd.DataFrame`''))"

subsection \<open>calculate_dd_cqs\<close>

text \<open>
  The function calls \<^verbatim>\<open>q.calculate_d_cqs(cqs, internal_controls)\<close>: the name \<^verbatim>\<open>q\<close> is
  looked up in the global namespace of the module when the call runs. The namespace is an
  argument of the model; \<open>module_globals\<close> is the namespace as the module's own
  statements leave it: the two imports and the three functions.
\<close>

datatype binding = Module string | Function string

type_synonym globals = "(string \<times> binding) list"

definition module_globals :: globals where
  "module_globals =
     [(''np'', Module ''numpy''), (''pd'', Module ''pandas''),
      (''calculate_avg_cqs'', Function ''calculate_avg_cqs''),
      (''calculate_d_cqs'', Function ''calculate_d_cqs''),
      (''calculate_dd_cqs'', Function ''calculate_dd_cqs'')]"

definition load_global :: "globals \<Rightarrow> string \<Rightarrow> error + binding" where
  "load_global g name =
     (case map_of g name of None \<Rightarrow> Inl (NameError name) | Some b \<Rightarrow> Inr b)"

text \<open>
  \<^verbatim>\<open>dd_cqs.merge(right=d_cqs_ic, how="left", on="target")\<close>: every left row, in order,
  paired with the \<^verbatim>\<open>d_cq_ic\<close> of each right row of its target, and with NaN when there
  is none.
\<close>

definition merge_target ::
    "d_row list \<Rightarrow> (string \<times> float64) list \<Rightarrow> (d_row \<times> float64) list" where
  "merge_target left right =
     concat (map (\<lambda>r.
        (let ms = filter (\<lambda>m. fst m = target r) right in
         if ms = [] then [(r, NaN)] else map (\<lambda>m. (r, snd m)) ms))
        left)"

text \<open>
  \<^verbatim>\<open>dd_cqs["dd_cq"] = dd_cqs["d_cq"] - dd_cqs["d_cq_ic"]\<close> and
  \<^verbatim>\<open>dd_cqs["fc"] = 2**-dd_cqs["dd_cq"]\<close>, row by row.
\<close>

definition assign_dd_cq :: "d_row \<times> float64 \<Rightarrow> dd_row" where
  "assign_dd_cq p =
     (case p of (r, dic) \<Rightarrow>
        \<lparr>sample = sample r, target = target r, mean = mean r, std = std r,
         mean_ic = mean_ic r, d_cq = d_cq r,
         d_cq_ic = dic,
         dd_cq = fsub (d_cq r) dic,
         fc = pow2 (fneg (fsub (d_cq r) dic))\<rparr>)"

text \<open>
  The statements of \<^verbatim>\<open>calculate_dd_cqs\<close> after the call: the rows of the calibrator
  whose target is not a control, projected to \<^verbatim>\<open>target\<close> and \<^verbatim>\<open>d_cq\<close> (renamed
  \<^verbatim>\<open>d_cq_ic\<close>), merged onto the table by target, and the two new columns.
\<close>

definition dd_cqs_steps :: "d_row list \<Rightarrow> string list \<Rightarrow> string \<Rightarrow> dd_row list" where
  "dd_cqs_steps dd_cqs internal_controls calibrator =
     (let d_cqs_ic =
            map (\<lambda>r. (target r, d_cq r))
              (filter (\<lambda>r. sample r = calibrator \<and> target r \<notin> set internal_controls)
                 dd_cqs)
      in map assign_dd_cq (merge_target dd_cqs d_cqs_ic))"

text \<open>
  The three type checks come first. Then \<^verbatim>\<open>q\<close> is loaded: \<^verbatim>\<open>NameError\<close> when it is
  unbound; the attribute \<^verbatim>\<open>calculate_d_cqs\<close> is found when \<^verbatim>\<open>q\<close> is bound to this
  module, and on no other binding of the model.
\<close>

definition calculate_dd_cqs :: "globals \<Rightarrow> pyval \<Rightarrow> pyval \<Rightarrow> pyval \<Rightarrow> error + dd_row list" where
  "calculate_dd_cqs g cqs internal_controls calibrator =
     (case cqs of
        DataFrame df \<Rightarrow>
          (case internal_controls of
             PyList ics \<Rightarrow>
               (case calibrator of
                  PyStr cal \<Rightarrow>
                    (case load_global g ''q'' of
                       Inl e \<Rightarrow> Inl e
                     | Inr b \<Rightarrow>
                         (if b = Module ''qpycr'' then
                            (case calculate_d_cqs cqs internal_controls of
                               Inl e \<Rightarrow> Inl e
                             | Inr dd_cqs \<Rightarrow> Inr (dd_cqs_steps dd_cqs ics cal))
                          else Inl (AttributeError ''calculate_d_cqs'')))
                | _ \<Rightarrow> Inl (TypeError
                     ''The argument passed to `calibrator` must be a `str`''))
           | _ \<Rightarrow> Inl (TypeError
                ''The argument passed to `internal_controls` must be a `list`''))
      | _ \<Rightarrow> Inl (TypeError ''The argument passed to `cqs` must be a `pd.DataFrame`''))"

subsection \<open>Notions the properties are stated with\<close>

text \<open>
  A well-formed raw table has the three columns the functions read.
\<close>

definition has_columns :: "dataframe \<Rightarrow> bool" where
  "has_columns df =
     (''sample'' \<in> set (columns df) \<and> ''target'' \<in> set (columns df) \<and>
      ''cq'' \<in> set (columns df))"

text \<open>The position at which a value occurs first in a list.\<close>

fun first_index :: "'a \<Rightarrow> 'a list \<Rightarrow> nat" where
  "first_index x [] = 0"
| "first_index x (y # ys) = (if x = y then 0 else Suc (first_index x ys))"

text \<open>The aggregated row of one (sample, target) pair of a raw table.\<close>

definition stats_row :: "reading list \<Rightarrow> string \<times> string \<Rightarrow> avg_row" where
  "stats_row rs k =
     \<lparr>sample = fst k, target = snd k,
      mean = agg_mean (group_cqs k rs), std = agg_std (group_cqs k rs)\<rparr>"

text \<open>The table \<^verbatim>\<open>calculate_avg_cqs\<close> returns on a well-formed raw table.\<close>

definition avg_table :: "reading list \<Rightarrow> avg_row list" where
  "avg_table rs = map (stats_row rs) (drop_duplicates (map key_of rs))"

text \<open>
  The per-target means of the control targets of one sample, in an aggregated table, and
  their \<^verbatim>\<open>mean\<close> aggregation.
\<close>

definition control_target_means :: "string list \<Rightarrow> avg_row list \<Rightarrow> string \<Rightarrow> float64 list" where
  "control_target_means ics avg s =
     map mean (filter (\<lambda>a. sample a = s \<and> target a \<in> set ics) avg)"

definition ic_mean :: "string list \<Rightarrow> avg_row list \<Rightarrow> string \<Rightarrow> float64" where
  "ic_mean ics avg s = agg_mean (control_target_means ics avg s)"

text \<open>The row \<^verbatim>\<open>calculate_d_cqs\<close> makes of an aggregated row.\<close>

definition delta_row :: "string list \<Rightarrow> avg_row list \<Rightarrow> avg_row \<Rightarrow> d_row" where
  "delta_row ics avg a = assign_d_cq ics (a, ic_mean ics avg (sample a))"

text \<open>The table \<^verbatim>\<open>calculate_d_cqs\<close> returns on a well-formed raw table.\<close>

definition delta_table :: "string list \<Rightarrow> reading list \<Rightarrow> d_row list" where
  "delta_table ics rs = map (delta_row ics (avg_table rs)) (avg_table rs)"

text \<open>
  The mean and the standard deviation in the words of the specification: the arithmetic
  mean of all the values, and the sample standard deviation with denominator \<open>n - 1\<close>
  over all \<open>n\<close> values, NaN for fewer than two values; a NaN among the values makes
  either NaN.
\<close>

definition arith_mean :: "float64 list \<Rightarrow> float64" where
  "arith_mean xs =
     (if list_ex isnan xs \<or> xs = [] then NaN
      else Fin (sum_list (notna xs) / real (length xs)))"

definition sample_std :: "float64 list \<Rightarrow> float64" where
  "sample_std xs =
     (if list_ex isnan xs \<or> length xs < 2 then NaN
      else (let m = sum_list (notna xs) / real (length xs) in
            Fin (sqrt (sum_list (map (\<lambda>x. (x - m)\<^sup>2) (notna xs)) / real (length xs - 1)))))"

text \<open>The error of the argument checks.\<close>

fun is_TypeError :: "error + 'a \<Rightarrow> bool" where
  "is_TypeError (Inl (TypeError _)) = True"
| "is_TypeError _ = False"

text \<open>
  Two raw tables the properties are tried on: the worked scenario of the specification, and a
  sample with two control targets that have different numbers of replicates.
\<close>

definition worked_example :: dataframe where
  "worked_example =
     \<lparr>columns = [''sample'', ''target'', ''cq''],
      rows = [\<lparr>sample = ''S1'', target = ''Actin'', cq = Fin 20\<rparr>,
              \<lparr>sample = ''S1'', target = ''Actin'', cq = Fin 20\<rparr>,
              \<lparr>sample = ''S1'', target = ''GeneX'', cq = Fin 25\<rparr>,
              \<lparr>sample = ''S1'', target = ''GeneX'', cq = Fin 25\<rparr>,
              \<lparr>sample = ''Cal'', target = ''Actin'', cq = Fin 19\<rparr>,
              \<lparr>sample = ''Cal'', target = ''Actin'', cq = Fin 19\<rparr>,
              \<lparr>sample = ''Cal'', target = ''GeneX'', cq = Fin 24\<rparr>,
              \<lparr>sample = ''Cal'', target = ''GeneX'', cq = Fin 24\<rparr>]\<rparr>"

definition two_controls_example :: dataframe where
  "two_controls_example =
     \<lparr>columns = [''sample'', ''target'', ''cq''],
      rows = [\<lparr>sample = ''S1'', target = ''A'', cq = Fin 10\<rparr>,
              \<lparr>sample = ''S1'', target = ''B'', cq = Fin 20\<rparr>,
              \<lparr>sample = ''S1'', target = ''B'', cq = Fin 30\<rparr>,
              \<lparr>sample = ''S1'', target = ''GeneX'', cq = Fin 25\<rparr>]\<rparr>"

text \<open>
  A table with a failed replicate in one pair and no other replicate in another, and the
  replicate pair 20.0, 22.0 of the specification beside a single replicate.
\<close>

definition failed_replicate_example :: dataframe where
  "failed_replicate_example =
     \<lparr>columns = [''sample'', ''target'', ''cq''],
      rows = [\<lparr>sample = ''S1'', target = ''T1'', cq = Fin 20\<rparr>,
              \<lparr>sample = ''S1'', target = ''T2'', cq = NaN\<rparr>,
              \<lparr>sample = ''S1'', target = ''T1'', cq = NaN\<rparr>]\<rparr>"

definition replicate_pair_example :: dataframe where
  "replicate_pair_example =
     \<lparr>columns = [''sample'', ''target'', ''cq''],
      rows = [\<lparr>sample = ''S1'', target = ''T1'', cq = Fin 20\<rparr>,
              \<lparr>sample = ''S1'', target = ''T1'', cq = Fin 22\<rparr>,
              \<lparr>sample = ''S1'', target = ''T2'', cq = Fin 30\<rparr>]\<rparr>"

text \<open>
  A sample whose control target A has no valid replicate, and a frame without the column
  \<^verbatim>\<open>cq\<close>.
\<close>

definition nan_control_example :: dataframe where
  "nan_control_example =
     \<lparr>columns = [''sample'', ''target'', ''cq''],
      rows = [\<lparr>sample = ''S1'', target = ''A'', cq = NaN\<rparr>,
              \<lparr>sample = ''S1'', target = ''B'', cq = Fin 20\<rparr>,
              \<lparr>sample = ''S1'', target = ''GeneX'', cq = Fin 25\<rparr>]\<rparr>"

definition missing_cq_example :: dataframe where
  "missing_cq_example =
     \<lparr>columns = [''sample'', ''target''],
      rows = [\<lparr>sample = ''S1'', target = ''T1'', cq = Fin 20\<rparr>]\<rparr>"

section \<open>Properties\<close>

subsection \<open>Dropping duplicates\<close>

lemma set_drop_seen: "set (drop_seen seen xs) = set xs - set seen"
  by (induction xs arbitrary: seen) auto

lemma distinct_drop_seen: "distinct (drop_seen seen xs)"
  by (induction xs arbitrary: seen) (auto simp: set_drop_seen)

lemma set_drop_duplicates [simp]: "set (drop_duplicates xs) = set xs"
  by (simp add: drop_duplicates_def set_drop_seen)

lemma distinct_drop_duplicates [simp]: "distinct (drop_duplicates xs)"
  by (simp add: drop_duplicates_def distinct_drop_seen)

lemma first_order_drop_seen:
  "sorted_wrt (\<lambda>a b. first_index a xs < first_index b xs) (drop_seen seen xs)"
proof (induction xs arbitrary: seen)
  case Nil
  then show ?case by simp
next
  case (Cons x xs)
  have later: "sorted_wrt (\<lambda>a b. first_index a (x # xs) < first_index b (x # xs)) (drop_seen s xs)"
    if "x \<in> set s" for s
  proof (rule sorted_wrt_mono_rel[OF _ Cons.IH[of s]])
    fix a b
    assume "a \<in> set (drop_seen s xs)" "b \<in> set (drop_seen s xs)"
      "first_index a xs < first_index b xs"
    with that show "first_index a (x # xs) < first_index b (x # xs)"
      by (auto simp: set_drop_seen)
  qed
  show ?case
  proof (cases "x \<in> set seen")
    case True
    then show ?thesis using later[of seen] by simp
  next
    case False
    then show ?thesis using later[of "x # seen"] by (auto simp: set_drop_seen)
  qed
qed

subsection \<open>The table of calculate_avg_cqs\<close>

lemma key_of_stats_row [simp]: "key_of (stats_row rs k) = k"
  by (simp add: key_of_def stats_row_def)

lemma filter_key_distinct:
  "distinct ks \<Longrightarrow>
   filter (\<lambda>r. key_of r = k) (map (stats_row rs) ks) =
     (if k \<in> set ks then [stats_row rs k] else [])"
  by (induction ks) auto

lemma merge_keys_stats:
  "set left \<subseteq> set ks \<Longrightarrow> distinct ks \<Longrightarrow>
   merge_keys left (map (stats_row rs) ks) = map (stats_row rs) left"
  by (induction left) (auto simp: merge_keys_def filter_key_distinct stats_row_def)

lemma calculate_avg_cqs_table:
  "has_columns df \<Longrightarrow> calculate_avg_cqs (DataFrame df) = Inr (avg_table (rows df))"
  unfolding calculate_avg_cqs_def groupby_agg_def getitem_keys_def has_columns_def avg_table_def
  using merge_keys_stats[of "drop_duplicates (map key_of (rows df))"
      "sort (remdups (map key_of (rows df)))" "rows df"]
  by (simp add: stats_row_def[abs_def])

lemma keys_avg_table [simp]: "map key_of (avg_table rs) = drop_duplicates (map key_of rs)"
  by (simp add: avg_table_def comp_def)

text \<open>
  C1. On a raw table with the three columns, \<^verbatim>\<open>calculate_avg_cqs\<close> returns a table whose
  (sample, target) pairs are pairwise different, are exactly the pairs of the raw table, and
  stand in the order in which each pair occurs first in the raw table.
\<close>

theorem avg_cqs_one_row_per_pair_in_first_order:
  assumes "has_columns df"
  shows "\<exists>out. calculate_avg_cqs (DataFrame df) = Inr out \<and>
           distinct (map key_of out) \<and>
           set (map key_of out) = set (map key_of (rows df)) \<and>
           sorted_wrt (\<lambda>a b. first_index a (map key_of (rows df))
                              < first_index b (map key_of (rows df)))
             (map key_of out)"
proof -
  have "sorted_wrt (\<lambda>a b. first_index a (map key_of (rows df))
                              < first_index b (map key_of (rows df)))
          (drop_duplicates (map key_of (rows df)))"
    unfolding drop_duplicates_def by (rule first_order_drop_seen)
  moreover have "set (map key_of (avg_table (rows df))) = set (map key_of (rows df))"
    by (simp only: keys_avg_table set_drop_duplicates)
  moreover have "distinct (map key_of (avg_table (rows df)))"
    by (simp only: keys_avg_table distinct_drop_duplicates)
  ultimately show ?thesis
    using calculate_avg_cqs_table[OF assms]
    by (intro exI[of _ "avg_table (rows df)"] conjI) (simp_all only: keys_avg_table)
qed

theorem avg_cqs_one_row_per_pair_witness:
  "has_columns \<lparr>columns = [''sample'', ''target'', ''cq''],
      rows = [\<lparr>sample = ''S2'', target = ''T1'', cq = Fin 20\<rparr>,
              \<lparr>sample = ''S1'', target = ''T1'', cq = Fin 21\<rparr>,
              \<lparr>sample = ''S2'', target = ''T1'', cq = Fin 22\<rparr>]\<rparr> \<and>
   (\<exists>out. calculate_avg_cqs (DataFrame \<lparr>columns = [''sample'', ''target'', ''cq''],
      rows = [\<lparr>sample = ''S2'', target = ''T1'', cq = Fin 20\<rparr>,
              \<lparr>sample = ''S1'', target = ''T1'', cq = Fin 21\<rparr>,
              \<lparr>sample = ''S2'', target = ''T1'', cq = Fin 22\<rparr>]\<rparr>) = Inr out \<and>
      map key_of out = [(''S2'', ''T1''), (''S1'', ''T1'')])"
proof -
  let ?df = "\<lparr>columns = [''sample'', ''target'', ''cq''],
      rows = [\<lparr>sample = ''S2'', target = ''T1'', cq = Fin 20\<rparr>,
              \<lparr>sample = ''S1'', target = ''T1'', cq = Fin 21\<rparr>,
              \<lparr>sample = ''S2'', target = ''T1'', cq = Fin 22\<rparr>]\<rparr>"
  have h: "has_columns ?df" by (simp add: has_columns_def)
  from avg_cqs_one_row_per_pair_in_first_order[OF h]
  obtain out where o: "calculate_avg_cqs (DataFrame ?df) = Inr out" by blast
  with calculate_avg_cqs_table[OF h] have "out = avg_table (rows ?df)" by simp
  then have "map key_of out = [(''S2'', ''T1''), (''S1'', ''T1'')]"
    by (simp add: drop_duplicates_def key_of_def)
  with o have "\<exists>out. calculate_avg_cqs (DataFrame ?df) = Inr out \<and>
      map key_of out = [(''S2'', ''T1''), (''S1'', ''T1'')]"
    by (intro exI[of _ out] conjI)
  with h show ?thesis by (rule conjI)
qed

subsection \<open>The table of calculate_d_cqs\<close>

lemma agg_mean_Nil [simp]: "agg_mean [] = NaN"
  by (simp add: agg_mean_def)

lemma filter_fst_distinct:
  "distinct ss \<Longrightarrow>
   filter (\<lambda>m. fst m = s) (map (\<lambda>s. (s, f s)) ss) = (if s \<in> set ss then [(s, f s)] else [])"
  by (induction ss) auto

lemma control_target_means_alt:
  "control_target_means ics avg s =
     map mean (filter (\<lambda>r. sample r = s) (filter (\<lambda>r. target r \<in> set ics) avg))"
  by (simp add: control_target_means_def conj_commute)

lemma control_target_means_empty:
  "s \<notin> sample ` set (filter (\<lambda>r. target r \<in> set ics) avg) \<Longrightarrow>
   control_target_means ics avg s = []"
  by (auto simp: control_target_means_def filter_empty_conv)

lemma merge_sample_control_means:
  "merge_sample left (control_means ics avg) = map (\<lambda>a. (a, ic_mean ics avg (sample a))) left"
proof -
  let ?ctl = "filter (\<lambda>r. target r \<in> set ics) avg"
  let ?ss = "sort (remdups (map sample ?ctl))"
  have d: "distinct ?ss" by simp
  have one: "(let ms = filter (\<lambda>m. fst m = sample r) (control_means ics avg) in
        if ms = [] then [(r, NaN)] else map (\<lambda>m. (r, snd m)) ms) = [(r, ic_mean ics avg (sample r))]" for r :: avg_row
  proof (cases "sample r \<in> set ?ss")
    case True
    then show ?thesis
      unfolding control_means_def Let_def filter_fst_distinct[OF d]
      by (simp add: ic_mean_def control_target_means_alt)
  next
    case False
    then have "control_target_means ics avg (sample r) = []"
      by (intro control_target_means_empty) simp
    with False show ?thesis
      unfolding control_means_def Let_def filter_fst_distinct[OF d]
      by (simp add: ic_mean_def)
  qed
  show ?thesis
    unfolding merge_sample_def by (induction left) (simp_all only: one list.map concat.simps append.simps)
qed

lemma calculate_d_cqs_table:
  "has_columns df \<Longrightarrow>
   calculate_d_cqs (DataFrame df) (PyList ics) =
     Inr (map (delta_row ics (avg_table (rows df))) (avg_table (rows df)))"
  by (simp add: calculate_d_cqs_def calculate_avg_cqs_table merge_sample_control_means
      delta_row_def comp_def)

lemma delta_row_fields [simp]:
  "sample (delta_row ics avg a) = sample a"
  "target (delta_row ics avg a) = target a"
  "mean (delta_row ics avg a) = mean a"
  "std (delta_row ics avg a) = std a"
  "mean_ic (delta_row ics avg a) = ic_mean ics avg (sample a)"
  "d_cq (delta_row ics avg a) =
     (if target a \<notin> set ics then fsub (mean a) (ic_mean ics avg (sample a)) else NaN)"
  by (simp_all add: delta_row_def assign_d_cq_def)

lemma is_finite_iff: "is_finite a \<longleftrightarrow> \<not> isnan a"
  by (cases a) simp_all

lemma isnan_fsub: "isnan (fsub a b) \<longleftrightarrow> isnan a \<or> isnan b"
  by (cases a; cases b) simp_all

lemma fsub_NaN_right [simp]: "fsub a NaN = NaN"
  by (cases a) simp_all

lemma notna_no_nan: "\<not> list_ex isnan xs \<Longrightarrow> map Fin (notna xs) = xs"
  by (induction xs rule: notna.induct) simp_all

lemma length_notna_no_nan: "\<not> list_ex isnan xs \<Longrightarrow> length (notna xs) = length xs"
  by (induction xs rule: notna.induct) simp_all

lemma agg_mean_no_nan: "\<not> list_ex isnan xs \<Longrightarrow> agg_mean xs = arith_mean xs"
proof -
  assume a: "\<not> list_ex isnan xs"
  then have l: "length (notna xs) = length xs" by (rule length_notna_no_nan)
  then have e: "notna xs = [] \<longleftrightarrow> xs = []" by (metis length_0_conv)
  show ?thesis by (simp add: agg_mean_def arith_mean_def Let_def a l e)
qed

text \<open>
  C2, as amended. On a raw table with the three columns, \<^verbatim>\<open>calculate_d_cqs\<close> returns a
  table in which \<^verbatim>\<open>d_cq\<close> is \<^verbatim>\<open>mean - mean_ic\<close> on every row whose target is not an
  internal control and NaN on every row whose target is one; on a row whose target is not a
  control, \<^verbatim>\<open>d_cq\<close> is not NaN whenever \<^verbatim>\<open>mean\<close> and \<^verbatim>\<open>mean_ic\<close> are both finite,
  and it is NaN whenever one of them is NaN.
\<close>

theorem d_cq_by_control_membership:
  assumes "has_columns df"
  shows "\<exists>out. calculate_d_cqs (DataFrame df) (PyList ics) = Inr out \<and>
     (\<forall>r \<in> set out.
        (target r \<notin> set ics \<longrightarrow> d_cq r = fsub (mean r) (mean_ic r)) \<and>
        (target r \<in> set ics \<longrightarrow> d_cq r = NaN) \<and>
        (target r \<notin> set ics \<and> is_finite (mean r) \<and> is_finite (mean_ic r) \<longrightarrow>
           \<not> isnan (d_cq r)) \<and>
        (isnan (mean r) \<or> isnan (mean_ic r) \<longrightarrow> isnan (d_cq r)))"
  unfolding calculate_d_cqs_table[OF assms]
  by (intro exI[of _ "map (delta_row ics (avg_table (rows df))) (avg_table (rows df))"])
     (auto simp: isnan_fsub is_finite_iff)

text \<open>
  C2 as stated fails: the only replicate of (S1, GeneX) is NaN, so the mean of the pair is
  NaN; GeneX is not a control, \<^verbatim>\<open>mean_ic\<close> of S1 is defined (20), and \<^verbatim>\<open>d_cq\<close> is NaN.
\<close>

theorem d_cq_nan_with_defined_mean_ic:
  "calculate_d_cqs
     (DataFrame \<lparr>columns = [''sample'', ''target'', ''cq''],
        rows = [\<lparr>sample = ''S1'', target = ''Actin'', cq = Fin 20\<rparr>,
                \<lparr>sample = ''S1'', target = ''GeneX'', cq = NaN\<rparr>]\<rparr>)
     (PyList [''Actin'']) =
   Inr [\<lparr>sample = ''S1'', target = ''Actin'', mean = Fin 20, std = NaN,
          mean_ic = Fin 20, d_cq = NaN\<rparr>,
        \<lparr>sample = ''S1'', target = ''GeneX'', mean = NaN, std = NaN,
          mean_ic = Fin 20, d_cq = NaN\<rparr>]"
proof -
  have h: "has_columns \<lparr>columns = [''sample'', ''target'', ''cq''],
        rows = [\<lparr>sample = ''S1'', target = ''Actin'', cq = Fin 20\<rparr>,
                \<lparr>sample = ''S1'', target = ''GeneX'', cq = NaN\<rparr>]\<rparr>"
    by (simp add: has_columns_def)
  show ?thesis
    unfolding calculate_d_cqs_table[OF h]
    by (simp add: avg_table_def drop_duplicates_def stats_row_def group_cqs_def key_of_def
        agg_mean_def agg_std_def delta_row_def assign_d_cq_def ic_mean_def
        control_target_means_def)
qed

text \<open>
  C10. With an empty list of internal controls and a raw table with the three columns,
  \<^verbatim>\<open>calculate_d_cqs\<close> returns the table of \<^verbatim>\<open>calculate_avg_cqs\<close>, row for row, with
  \<^verbatim>\<open>mean_ic\<close> and \<^verbatim>\<open>d_cq\<close> NaN on every row.
\<close>

theorem empty_controls_all_nan:
  assumes "has_columns df"
  shows "\<exists>avg out. calculate_avg_cqs (DataFrame df) = Inr avg \<and>
     calculate_d_cqs (DataFrame df) (PyList []) = Inr out \<and>
     out = map (\<lambda>a. \<lparr>sample = sample a, target = target a, mean = mean a, std = std a,
                      mean_ic = NaN, d_cq = NaN\<rparr>) avg \<and>
     (\<forall>r \<in> set out. mean_ic r = NaN \<and> d_cq r = NaN)"
  unfolding calculate_d_cqs_table[OF assms] calculate_avg_cqs_table[OF assms]
  by (intro exI[of _ "avg_table (rows df)"]
        exI[of _ "map (delta_row [] (avg_table (rows df))) (avg_table (rows df))"])
     (auto simp: delta_row_def assign_d_cq_def ic_mean_def control_target_means_def)

subsection \<open>The properties on the example tables\<close>

lemma has_columns_worked_example: "has_columns worked_example"
  by (simp add: has_columns_def worked_example_def)

lemma avg_table_worked_example:
  "avg_table (rows worked_example) =
     [\<lparr>sample = ''S1'', target = ''Actin'', mean = Fin 20, std = Fin 0\<rparr>,
      \<lparr>sample = ''S1'', target = ''GeneX'', mean = Fin 25, std = Fin 0\<rparr>,
      \<lparr>sample = ''Cal'', target = ''Actin'', mean = Fin 19, std = Fin 0\<rparr>,
      \<lparr>sample = ''Cal'', target = ''GeneX'', mean = Fin 24, std = Fin 0\<rparr>]"
  by (simp add: worked_example_def avg_table_def drop_duplicates_def stats_row_def group_cqs_def key_of_def
        agg_mean_def agg_std_def)

theorem d_cq_by_control_membership_witness:
  "has_columns worked_example \<and>
   (\<exists>out. calculate_d_cqs (DataFrame worked_example) (PyList [''Actin'']) = Inr out \<and>
      map d_cq out = [NaN, Fin 5, NaN, Fin 5] \<and> map mean_ic out = [Fin 20, Fin 20, Fin 19, Fin 19])"
proof -
  note h = has_columns_worked_example
  from d_cq_by_control_membership[OF h, of "[''Actin'']"]
  obtain out where o: "calculate_d_cqs (DataFrame worked_example) (PyList [''Actin'']) = Inr out"
    by blast
  with calculate_d_cqs_table[OF h, of "[''Actin'']"]
  have "out = map (delta_row [''Actin''] (avg_table (rows worked_example))) (avg_table (rows worked_example))"
    by simp
  then have "map d_cq out = [NaN, Fin 5, NaN, Fin 5] \<and> map mean_ic out = [Fin 20, Fin 20, Fin 19, Fin 19]"
    unfolding avg_table_worked_example
    by (simp add: delta_row_def assign_d_cq_def ic_mean_def control_target_means_def agg_mean_def)
  with o have "\<exists>out. calculate_d_cqs (DataFrame worked_example) (PyList [''Actin'']) = Inr out \<and>
      map d_cq out = [NaN, Fin 5, NaN, Fin 5] \<and> map mean_ic out = [Fin 20, Fin 20, Fin 19, Fin 19]"
    by (intro exI[of _ out] conjI) simp_all
  with h show ?thesis by (rule conjI)
qed

lemma has_columns_two_controls: "has_columns two_controls_example"
  by (simp add: has_columns_def two_controls_example_def)

lemma avg_table_two_controls:
  "avg_table (rows two_controls_example) =
     [\<lparr>sample = ''S1'', target = ''A'', mean = Fin 10, std = NaN\<rparr>,
      \<lparr>sample = ''S1'', target = ''B'', mean = Fin 25, std = Fin (sqrt 50)\<rparr>,
      \<lparr>sample = ''S1'', target = ''GeneX'', mean = Fin 25, std = NaN\<rparr>]"
  by (simp add: two_controls_example_def avg_table_def drop_duplicates_def stats_row_def group_cqs_def key_of_def
        agg_mean_def agg_std_def)

theorem empty_controls_all_nan_witness:
  "has_columns worked_example \<and>
   (\<exists>out. calculate_d_cqs (DataFrame worked_example) (PyList []) = Inr out \<and>
      map key_of out = [(''S1'', ''Actin''), (''S1'', ''GeneX''), (''Cal'', ''Actin''), (''Cal'', ''GeneX'')] \<and>
      map mean_ic out = [NaN, NaN, NaN, NaN] \<and> map d_cq out = [NaN, NaN, NaN, NaN])"
proof -
  note h = has_columns_worked_example
  from empty_controls_all_nan[OF h]
  obtain out where o: "calculate_d_cqs (DataFrame worked_example) (PyList []) = Inr out"
    and m: "out = map (\<lambda>a. \<lparr>sample = sample a, target = target a, mean = mean a, std = std a,
                      mean_ic = NaN, d_cq = NaN\<rparr>) (avg_table (rows worked_example))"
    unfolding calculate_avg_cqs_table[OF h] by blast
  from m have "map key_of out = [(''S1'', ''Actin''), (''S1'', ''GeneX''), (''Cal'', ''Actin''), (''Cal'', ''GeneX'')] \<and>
      map mean_ic out = [NaN, NaN, NaN, NaN] \<and> map d_cq out = [NaN, NaN, NaN, NaN]"
    unfolding avg_table_worked_example by (simp add: key_of_def)
  with o have "\<exists>out. calculate_d_cqs (DataFrame worked_example) (PyList []) = Inr out \<and>
      map key_of out = [(''S1'', ''Actin''), (''S1'', ''GeneX''), (''Cal'', ''Actin''), (''Cal'', ''GeneX'')] \<and>
      map mean_ic out = [NaN, NaN, NaN, NaN] \<and> map d_cq out = [NaN, NaN, NaN, NaN]"
    by (intro exI[of _ out] conjI) simp_all
  with h show ?thesis by (rule conjI)
qed

subsection \<open>Mean and standard deviation of a group\<close>

lemma notna_filter [simp]: "notna (filter (\<lambda>x. \<not> isnan x) xs) = notna xs"
  by (induction xs rule: notna.induct) simp_all

lemma no_nan_filter [simp]: "\<not> list_ex isnan (filter (\<lambda>x. \<not> isnan x) xs)"
  by (simp add: list_ex_iff)

lemma length_notna: "length (notna xs) = length (filter (\<lambda>x. \<not> isnan x) xs)"
  by (induction xs rule: notna.induct) simp_all

lemma notna_empty_iff: "notna xs = [] \<longleftrightarrow> (\<forall>x \<in> set xs. isnan x)"
  by (induction xs rule: notna.induct) simp_all

lemma agg_mean_skips_nan: "agg_mean xs = arith_mean (filter (\<lambda>x. \<not> isnan x) xs)"
proof -
  have "agg_mean xs = agg_mean (filter (\<lambda>x. \<not> isnan x) xs)"
    by (simp add: agg_mean_def)
  then show ?thesis by (simp add: agg_mean_no_nan)
qed

lemma agg_std_skips_nan: "agg_std xs = sample_std (filter (\<lambda>x. \<not> isnan x) xs)"
  by (auto simp: agg_std_def sample_std_def Let_def length_notna[symmetric])

lemma isnan_agg_mean: "isnan (agg_mean xs) \<longleftrightarrow> (\<forall>x \<in> set xs. isnan x)"
  by (simp add: agg_mean_def Let_def notna_empty_iff)

lemma isnan_agg_std: "isnan (agg_std xs) \<longleftrightarrow> length (filter (\<lambda>x. \<not> isnan x) xs) < 2"
  by (auto simp: agg_std_def Let_def length_notna)

lemma filter_no_nan: "\<not> list_ex isnan xs \<Longrightarrow> filter (\<lambda>x. \<not> isnan x) xs = xs"
  by (simp add: list_ex_iff)

lemma avg_table_row:
  "r \<in> set (avg_table rs) \<Longrightarrow>
   mean r = agg_mean (group_cqs (key_of r) rs) \<and> std r = agg_std (group_cqs (key_of r) rs)"
  by (auto simp: avg_table_def stats_row_def key_of_def)

text \<open>
  C4, as amended. NaN replicates are left out of the aggregation: on a raw table with the
  three columns, the \<^verbatim>\<open>mean\<close> and \<^verbatim>\<open>std\<close> of every row of \<^verbatim>\<open>calculate_avg_cqs\<close> are
  the arithmetic mean and the sample standard deviation of the non-NaN values of the row's
  group. \<^verbatim>\<open>mean\<close> is NaN when every value of the group is NaN, and \<^verbatim>\<open>std\<close> is NaN when
  fewer than two values of the group are not NaN; \<^verbatim>\<open>mean\<close> is not NaN when the group has a
  non-NaN value and \<^verbatim>\<open>std\<close> is not NaN when it has two, its non-NaN values being finite,
  whatever NaN replicates the group holds besides.
\<close>

theorem nan_replicates_left_out_of_mean_and_std:
  assumes "has_columns df"
  shows "\<exists>out. calculate_avg_cqs (DataFrame df) = Inr out \<and>
     (\<forall>r \<in> set out.
        mean r = arith_mean (filter (\<lambda>x. \<not> isnan x) (group_cqs (key_of r) (rows df))) \<and>
        std r = sample_std (filter (\<lambda>x. \<not> isnan x) (group_cqs (key_of r) (rows df))) \<and>
        ((\<forall>x \<in> set (group_cqs (key_of r) (rows df)). isnan x) \<longrightarrow> mean r = NaN) \<and>
        (length (filter (\<lambda>x. \<not> isnan x) (group_cqs (key_of r) (rows df))) < 2 \<longrightarrow>
           std r = NaN) \<and>
        ((\<exists>x \<in> set (group_cqs (key_of r) (rows df)). \<not> isnan x) \<and>
         (\<forall>x \<in> set (group_cqs (key_of r) (rows df)). \<not> isnan x \<longrightarrow> is_finite x) \<longrightarrow>
           \<not> isnan (mean r)) \<and>
        (2 \<le> length (filter (\<lambda>x. \<not> isnan x) (group_cqs (key_of r) (rows df))) \<and>
         (\<forall>x \<in> set (group_cqs (key_of r) (rows df)). \<not> isnan x \<longrightarrow> is_finite x) \<longrightarrow>
           \<not> isnan (std r)))"
proof -
  have m: "mean r = agg_mean (group_cqs (key_of r) (rows df))"
    and s: "std r = agg_std (group_cqs (key_of r) (rows df))"
    if "r \<in> set (avg_table (rows df))" for r
    using avg_table_row[OF that] by simp_all
  have nan_mean: "agg_mean g = NaN" if "\<forall>x \<in> set g. isnan x" for g
    using that isnan_agg_mean[of g] by (cases "agg_mean g") simp_all
  have num_mean: "\<not> isnan (agg_mean g)" if "\<exists>x \<in> set g. \<not> isnan x" for g
    using that by (simp add: isnan_agg_mean)
  have nan_std: "agg_std g = NaN" if "length (filter (\<lambda>x. \<not> isnan x) g) < 2" for g
    using that isnan_agg_std[of g] by (cases "agg_std g") simp_all
  have num_std: "\<not> isnan (agg_std g)" if "2 \<le> length (filter (\<lambda>x. \<not> isnan x) g)" for g
    using that by (simp add: isnan_agg_std)
  show ?thesis
    unfolding calculate_avg_cqs_table[OF assms]
    by (intro exI[of _ "avg_table (rows df)"] conjI ballI impI refl)
       (simp_all add: m s agg_mean_skips_nan[symmetric] agg_std_skips_nan[symmetric]
          nan_mean num_mean nan_std num_std)
qed

text \<open>
  C4 as stated fails: a group with the replicates 20, NaN and 22 has the mean 21 and the
  standard deviation \<open>sqrt 2\<close>, neither of them NaN.
\<close>

theorem nan_replicate_does_not_poison:
  "calculate_avg_cqs
     (DataFrame \<lparr>columns = [''sample'', ''target'', ''cq''],
        rows = [\<lparr>sample = ''S1'', target = ''T1'', cq = Fin 20\<rparr>,
                \<lparr>sample = ''S1'', target = ''T1'', cq = NaN\<rparr>,
                \<lparr>sample = ''S1'', target = ''T1'', cq = Fin 22\<rparr>]\<rparr>) =
   Inr [\<lparr>sample = ''S1'', target = ''T1'', mean = Fin 21, std = Fin (sqrt 2)\<rparr>]"
proof -
  have h: "has_columns \<lparr>columns = [''sample'', ''target'', ''cq''],
        rows = [\<lparr>sample = ''S1'', target = ''T1'', cq = Fin 20\<rparr>,
                \<lparr>sample = ''S1'', target = ''T1'', cq = NaN\<rparr>,
                \<lparr>sample = ''S1'', target = ''T1'', cq = Fin 22\<rparr>]\<rparr>"
    by (simp add: has_columns_def)
  show ?thesis
    unfolding calculate_avg_cqs_table[OF h]
    by (simp add: avg_table_def drop_duplicates_def stats_row_def group_cqs_def key_of_def
        agg_mean_def agg_std_def)
qed

text \<open>
  C8, as amended. On a raw table with the three columns, \<^verbatim>\<open>mean\<close> of every row of
  \<^verbatim>\<open>calculate_avg_cqs\<close> is the arithmetic mean of the non-NaN values of the row's group
  and \<^verbatim>\<open>std\<close> is their sample standard deviation with denominator \<open>n - 1\<close>, \<open>n\<close>
  the number of non-NaN values; for a group without NaN these are the mean and the standard
  deviation of all its values; \<^verbatim>\<open>std\<close> is NaN for a group with fewer than two non-NaN
  values, so for every group with fewer than two replicates.
\<close>

theorem mean_and_std_of_replicates:
  assumes "has_columns df"
  shows "\<exists>out. calculate_avg_cqs (DataFrame df) = Inr out \<and>
     (\<forall>r \<in> set out.
        mean r = arith_mean (filter (\<lambda>x. \<not> isnan x) (group_cqs (key_of r) (rows df))) \<and>
        std r = sample_std (filter (\<lambda>x. \<not> isnan x) (group_cqs (key_of r) (rows df))) \<and>
        (\<not> list_ex isnan (group_cqs (key_of r) (rows df)) \<longrightarrow>
           mean r = arith_mean (group_cqs (key_of r) (rows df)) \<and>
           std r = sample_std (group_cqs (key_of r) (rows df))) \<and>
        (length (filter (\<lambda>x. \<not> isnan x) (group_cqs (key_of r) (rows df))) < 2 \<longrightarrow>
           std r = NaN) \<and>
        (length (group_cqs (key_of r) (rows df)) < 2 \<longrightarrow> std r = NaN))"
proof -
  have short': "length (filter (\<lambda>x. \<not> isnan x) g) < 2 \<Longrightarrow> agg_std g = NaN" for g
    by (simp add: agg_std_def Let_def length_notna)
  have short: "agg_std g = NaN" if "length g < 2" for g
  proof -
    have "length (filter (\<lambda>x. \<not> isnan x) g) \<le> length g" by (rule length_filter_le)
    with that have "length (filter (\<lambda>x. \<not> isnan x) g) < 2" by linarith
    then show ?thesis by (rule short')
  qed
  have clean: "\<not> list_ex isnan g \<Longrightarrow> agg_mean g = arith_mean g \<and> agg_std g = sample_std g" for g
    using agg_mean_skips_nan[of g] agg_std_skips_nan[of g] by (simp add: filter_no_nan)
  show ?thesis
    unfolding calculate_avg_cqs_table[OF assms]
    by (intro exI[of _ "avg_table (rows df)"])
       (simp add: avg_table_row agg_mean_skips_nan[symmetric] agg_std_skips_nan[symmetric]
          short short' clean)
qed

text \<open>
  C8 as stated fails: a group with the replicates NaN, 10 and 14 has the mean 12 and the
  standard deviation \<open>sqrt 8\<close> (denominator 1), where the arithmetic mean and the sample
  standard deviation over the three values of the group are NaN.
\<close>

theorem mean_not_over_all_replicates:
  "calculate_avg_cqs
     (DataFrame \<lparr>columns = [''sample'', ''target'', ''cq''],
        rows = [\<lparr>sample = ''S1'', target = ''T1'', cq = NaN\<rparr>,
                \<lparr>sample = ''S1'', target = ''T1'', cq = Fin 10\<rparr>,
                \<lparr>sample = ''S1'', target = ''T1'', cq = Fin 14\<rparr>]\<rparr>) =
   Inr [\<lparr>sample = ''S1'', target = ''T1'', mean = Fin 12, std = Fin (sqrt 8)\<rparr>] \<and>
   arith_mean [NaN, Fin 10, Fin 14] = NaN \<and> sample_std [NaN, Fin 10, Fin 14] = NaN"
proof -
  have h: "has_columns \<lparr>columns = [''sample'', ''target'', ''cq''],
        rows = [\<lparr>sample = ''S1'', target = ''T1'', cq = NaN\<rparr>,
                \<lparr>sample = ''S1'', target = ''T1'', cq = Fin 10\<rparr>,
                \<lparr>sample = ''S1'', target = ''T1'', cq = Fin 14\<rparr>]\<rparr>"
    by (simp add: has_columns_def)
  show ?thesis
    unfolding calculate_avg_cqs_table[OF h]
    by (simp add: avg_table_def drop_duplicates_def stats_row_def group_cqs_def key_of_def
        agg_mean_def agg_std_def arith_mean_def sample_std_def)
qed

lemma has_columns_failed_replicate: "has_columns failed_replicate_example"
  by (simp add: has_columns_def failed_replicate_example_def)

lemma has_columns_replicate_pair: "has_columns replicate_pair_example"
  by (simp add: has_columns_def replicate_pair_example_def)

text \<open>
  The first table: the failed replicate of (S1, T1) is left out, and (S1, T2), whose only
  replicate failed, has no value to aggregate.
\<close>

theorem nan_replicates_left_out_witness:
  "has_columns failed_replicate_example \<and>
   (\<exists>out. calculate_avg_cqs (DataFrame failed_replicate_example) = Inr out \<and>
      out = [\<lparr>sample = ''S1'', target = ''T1'', mean = Fin 20, std = NaN\<rparr>,
             \<lparr>sample = ''S1'', target = ''T2'', mean = NaN, std = NaN\<rparr>])"
proof -
  note h = has_columns_failed_replicate
  from nan_replicates_left_out_of_mean_and_std[OF h]
  obtain out where o: "calculate_avg_cqs (DataFrame failed_replicate_example) = Inr out"
    by blast
  with calculate_avg_cqs_table[OF h] have "out = avg_table (rows failed_replicate_example)"
    by simp
  then have "out = [\<lparr>sample = ''S1'', target = ''T1'', mean = Fin 20, std = NaN\<rparr>,
             \<lparr>sample = ''S1'', target = ''T2'', mean = NaN, std = NaN\<rparr>]"
    by (simp add: failed_replicate_example_def avg_table_def drop_duplicates_def stats_row_def
        group_cqs_def key_of_def agg_mean_def agg_std_def)
  with o have "\<exists>out. calculate_avg_cqs (DataFrame failed_replicate_example) = Inr out \<and>
      out = [\<lparr>sample = ''S1'', target = ''T1'', mean = Fin 20, std = NaN\<rparr>,
             \<lparr>sample = ''S1'', target = ''T2'', mean = NaN, std = NaN\<rparr>]"
    by (intro exI[of _ out] conjI)
  with h show ?thesis by (rule conjI)
qed

text \<open>
  The second table: 20.0 and 22.0 give the mean 21.0 and the standard deviation
  \<open>sqrt 2\<close>; the single replicate of (S1, T2) has no standard deviation.
\<close>

theorem mean_and_std_of_replicates_witness:
  "has_columns replicate_pair_example \<and>
   (\<exists>out. calculate_avg_cqs (DataFrame replicate_pair_example) = Inr out \<and>
      out = [\<lparr>sample = ''S1'', target = ''T1'', mean = Fin 21, std = Fin (sqrt 2)\<rparr>,
             \<lparr>sample = ''S1'', target = ''T2'', mean = Fin 30, std = NaN\<rparr>])"
proof -
  note h = has_columns_replicate_pair
  from mean_and_std_of_replicates[OF h]
  obtain out where o: "calculate_avg_cqs (DataFrame replicate_pair_example) = Inr out"
    by blast
  with calculate_avg_cqs_table[OF h] have "out = avg_table (rows replicate_pair_example)"
    by simp
  then have "out = [\<lparr>sample = ''S1'', target = ''T1'', mean = Fin 21, std = Fin (sqrt 2)\<rparr>,
             \<lparr>sample = ''S1'', target = ''T2'', mean = Fin 30, std = NaN\<rparr>]"
    by (simp add: replicate_pair_example_def avg_table_def drop_duplicates_def stats_row_def
        group_cqs_def key_of_def agg_mean_def agg_std_def)
  with o have "\<exists>out. calculate_avg_cqs (DataFrame replicate_pair_example) = Inr out \<and>
      out = [\<lparr>sample = ''S1'', target = ''T1'', mean = Fin 21, std = Fin (sqrt 2)\<rparr>,
             \<lparr>sample = ''S1'', target = ''T2'', mean = Fin 30, std = NaN\<rparr>]"
    by (intro exI[of _ out] conjI)
  with h show ?thesis by (rule conjI)
qed

subsection \<open>The mean of the controls\<close>

text \<open>
  C5, as amended. On a raw table with the three columns, two rows of the table of
  \<^verbatim>\<open>calculate_d_cqs\<close> with the same sample have the same \<^verbatim>\<open>mean_ic\<close>, and
  \<^verbatim>\<open>mean_ic\<close> of a row is the arithmetic mean of those per-target means, computed by
  \<^verbatim>\<open>calculate_avg_cqs\<close> for the control targets of the row's sample, that are not NaN:
  the arithmetic mean of all of them when none is NaN.
\<close>

theorem mean_ic_constant_per_sample_mean_of_means:
  assumes "has_columns df"
  shows "\<exists>avg out. calculate_avg_cqs (DataFrame df) = Inr avg \<and>
     calculate_d_cqs (DataFrame df) (PyList ics) = Inr out \<and>
     (\<forall>r \<in> set out. \<forall>r' \<in> set out. sample r = sample r' \<longrightarrow> mean_ic r = mean_ic r') \<and>
     (\<forall>r \<in> set out.
         mean_ic r =
           arith_mean (filter (\<lambda>x. \<not> isnan x) (control_target_means ics avg (sample r)))) \<and>
     (\<forall>r \<in> set out. \<not> list_ex isnan (control_target_means ics avg (sample r)) \<longrightarrow>
         mean_ic r = arith_mean (control_target_means ics avg (sample r)))"
  unfolding calculate_d_cqs_table[OF assms] calculate_avg_cqs_table[OF assms]
  by (intro exI[of _ "avg_table (rows df)"]
        exI[of _ "map (delta_row ics (avg_table (rows df))) (avg_table (rows df))"])
     (auto simp: ic_mean_def agg_mean_no_nan agg_mean_skips_nan[symmetric])

text \<open>
  In the second table the control targets A and B of S1 have the means 10 and 25:
  \<^verbatim>\<open>mean_ic\<close> is 17.5, the mean of the two means, where the mean of the three pooled
  replicates is 20.
\<close>

theorem mean_ic_mean_of_means_witness:
  "has_columns two_controls_example \<and>
   (\<exists>out. calculate_d_cqs (DataFrame two_controls_example) (PyList [''A'', ''B'']) = Inr out \<and>
      map mean_ic out = [Fin (35 / 2), Fin (35 / 2), Fin (35 / 2)]) \<and>
   agg_mean (map cq (filter (\<lambda>r. target r \<in> {''A'', ''B''}) (rows two_controls_example))) = Fin 20"
proof -
  note h = has_columns_two_controls
  from mean_ic_constant_per_sample_mean_of_means[OF h, of "[''A'', ''B'']"]
  obtain out where o: "calculate_d_cqs (DataFrame two_controls_example) (PyList [''A'', ''B'']) = Inr out"
    by blast
  with calculate_d_cqs_table[OF h, of "[''A'', ''B'']"]
  have "out = map (delta_row [''A'', ''B''] (avg_table (rows two_controls_example))) (avg_table (rows two_controls_example))"
    by simp
  then have "map mean_ic out = [Fin (35 / 2), Fin (35 / 2), Fin (35 / 2)]"
    unfolding avg_table_two_controls
    by (simp add: ic_mean_def control_target_means_def agg_mean_def)
  with o have "\<exists>out. calculate_d_cqs (DataFrame two_controls_example) (PyList [''A'', ''B'']) = Inr out \<and>
      map mean_ic out = [Fin (35 / 2), Fin (35 / 2), Fin (35 / 2)]"
    by (intro exI[of _ out] conjI)
  moreover have "agg_mean (map cq (filter (\<lambda>r. target r \<in> {''A'', ''B''}) (rows two_controls_example))) = Fin 20"
    by (simp add: two_controls_example_def agg_mean_def)
  ultimately show ?thesis using h by (intro conjI)
qed

lemma has_columns_nan_control: "has_columns nan_control_example"
  by (simp add: has_columns_def nan_control_example_def)

lemma avg_table_nan_control:
  "avg_table (rows nan_control_example) =
     [\<lparr>sample = ''S1'', target = ''A'', mean = NaN, std = NaN\<rparr>,
      \<lparr>sample = ''S1'', target = ''B'', mean = Fin 20, std = NaN\<rparr>,
      \<lparr>sample = ''S1'', target = ''GeneX'', mean = Fin 25, std = NaN\<rparr>]"
  by (simp add: nan_control_example_def avg_table_def drop_duplicates_def stats_row_def
      group_cqs_def key_of_def agg_mean_def agg_std_def)

text \<open>
  C5 as stated fails: the control target A of S1 has the per-target mean NaN and the control
  target B the per-target mean 20; \<^verbatim>\<open>mean_ic\<close> of S1 is 20, where the mean of the two
  per-target means is NaN.
\<close>

theorem nan_control_mean_left_out:
  "calculate_avg_cqs (DataFrame nan_control_example) =
     Inr [\<lparr>sample = ''S1'', target = ''A'', mean = NaN, std = NaN\<rparr>,
          \<lparr>sample = ''S1'', target = ''B'', mean = Fin 20, std = NaN\<rparr>,
          \<lparr>sample = ''S1'', target = ''GeneX'', mean = Fin 25, std = NaN\<rparr>] \<and>
   calculate_d_cqs (DataFrame nan_control_example) (PyList [''A'', ''B'']) =
     Inr [\<lparr>sample = ''S1'', target = ''A'', mean = NaN, std = NaN,
            mean_ic = Fin 20, d_cq = NaN\<rparr>,
          \<lparr>sample = ''S1'', target = ''B'', mean = Fin 20, std = NaN,
            mean_ic = Fin 20, d_cq = NaN\<rparr>,
          \<lparr>sample = ''S1'', target = ''GeneX'', mean = Fin 25, std = NaN,
            mean_ic = Fin 20, d_cq = Fin 5\<rparr>] \<and>
   arith_mean [NaN, Fin 20] = NaN"
  unfolding calculate_avg_cqs_table[OF has_columns_nan_control]
    calculate_d_cqs_table[OF has_columns_nan_control] avg_table_nan_control
  by (simp add: delta_row_def assign_d_cq_def ic_mean_def control_target_means_def
      agg_mean_def arith_mean_def)

subsection \<open>The table of calculate_dd_cqs\<close>

lemma calculate_d_cqs_delta_table:
  "has_columns df \<Longrightarrow>
   calculate_d_cqs (DataFrame df) (PyList ics) = Inr (delta_table ics (rows df))"
  by (simp add: calculate_d_cqs_table delta_table_def)

lemma key_of_delta_row [simp]: "key_of (delta_row ics avg a) = key_of a"
  by (simp add: key_of_def)

lemma keys_delta_table [simp]:
  "map key_of (delta_table ics rs) = drop_duplicates (map key_of rs)"
  by (simp add: delta_table_def comp_def flip: keys_avg_table)

lemma inj_on_keys_delta_table: "inj_on key_of (set (delta_table ics rs))"
proof -
  have "distinct (map key_of (delta_table ics rs))"
    by (simp only: keys_delta_table distinct_drop_duplicates)
  then show ?thesis unfolding distinct_map by (rule conjunct2)
qed

lemma calculate_dd_cqs_steps:
  assumes "has_columns df" and "map_of g ''q'' = Some (Module ''qpycr'')"
  shows "calculate_dd_cqs g (DataFrame df) (PyList ics) (PyStr cal) =
           Inr (dd_cqs_steps (delta_table ics (rows df)) ics cal)"
  using assms
  by (simp add: calculate_dd_cqs_def load_global_def calculate_d_cqs_delta_table)

lemma in_merge_target:
  "p \<in> set (merge_target left right) \<Longrightarrow>
   fst p \<in> set left \<and>
   ((\<forall>m \<in> set right. fst m \<noteq> target (fst p)) \<and> snd p = NaN \<or>
    (target (fst p), snd p) \<in> set right)"
  by (auto simp: merge_target_def Let_def filter_empty_conv split: if_splits)

lemma in_dd_cqs_steps:
  assumes "r \<in> set (dd_cqs_steps D ics cal)"
  obtains a dic where "a \<in> set D" "r = assign_dd_cq (a, dic)"
    "(\<forall>b \<in> set D. sample b = cal \<and> target b \<notin> set ics \<longrightarrow> target b \<noteq> target a) \<and> dic = NaN \<or>
     (\<exists>b \<in> set D. sample b = cal \<and> target b \<notin> set ics \<and> target b = target a \<and> dic = d_cq b)"
proof -
  from assms obtain p where p: "p \<in> set (merge_target D
      (map (\<lambda>r. (target r, d_cq r))
         (filter (\<lambda>r. sample r = cal \<and> target r \<notin> set ics) D)))"
    and r: "r = assign_dd_cq p"
    by (auto simp: dd_cqs_steps_def Let_def)
  from in_merge_target[OF p] have "fst p \<in> set D" and
    "(\<forall>b \<in> set D. sample b = cal \<and> target b \<notin> set ics \<longrightarrow> target b \<noteq> target (fst p)) \<and> snd p = NaN \<or>
     (\<exists>b \<in> set D. sample b = cal \<and> target b \<notin> set ics \<and> target b = target (fst p) \<and> snd p = d_cq b)"
    by auto
  with r that[of "fst p" "snd p"] show ?thesis by simp
qed

lemma assign_dd_cq_fields [simp]:
  "sample (assign_dd_cq (a, dic)) = sample a"
  "target (assign_dd_cq (a, dic)) = target a"
  "d_cq (assign_dd_cq (a, dic)) = d_cq a"
  "d_cq_ic (assign_dd_cq (a, dic)) = dic"
  "dd_cq (assign_dd_cq (a, dic)) = fsub (d_cq a) dic"
  "fc (assign_dd_cq (a, dic)) = pow2 (fneg (fsub (d_cq a) dic))"
  by (simp_all add: assign_dd_cq_def)

lemma fsub_self: "\<not> isnan a \<Longrightarrow> fsub a a = Fin 0"
  by (cases a) simp_all

lemma pow2_values:
  "pow2 (fneg (Fin 0)) = Fin 1" "pow2 (fneg (Fin (- 1))) = Fin 2"
  "pow2 (fneg (Fin 1)) = Fin (1 / 2)" "pow2 (fneg NaN) = NaN"
  by (simp_all add: powr_minus_divide)

lemma calibrator_row:
  assumes r: "r \<in> set (dd_cqs_steps (delta_table ics rs) ics cal)"
    and c: "sample r = cal" "target r \<notin> set ics" "\<not> isnan (d_cq r)"
  shows "dd_cq r = Fin 0"
proof -
  from r obtain a dic where a: "a \<in> set (delta_table ics rs)" and ra: "r = assign_dd_cq (a, dic)"
    and m: "(\<forall>b \<in> set (delta_table ics rs). sample b = cal \<and> target b \<notin> set ics \<longrightarrow> target b \<noteq> target a) \<and> dic = NaN \<or>
     (\<exists>b \<in> set (delta_table ics rs). sample b = cal \<and> target b \<notin> set ics \<and> target b = target a \<and> dic = d_cq b)"
    by (rule in_dd_cqs_steps)
  from c ra have ca: "sample a = cal" "target a \<notin> set ics" "\<not> isnan (d_cq a)" by simp_all
  from m a ca obtain b where b: "b \<in> set (delta_table ics rs)" "sample b = cal"
    "target b = target a" "dic = d_cq b"
    by blast
  with ca have "key_of b = key_of a" by (simp add: key_of_def)
  with inj_on_keys_delta_table[of ics rs] a b have "b = a" by (auto dest: inj_onD)
  with b ra ca show ?thesis by (simp add: fsub_self)
qed

text \<open>
  What the statements after the call do with the table of \<^verbatim>\<open>calculate_d_cqs\<close>: on every
  row \<^verbatim>\<open>dd_cq\<close> is \<^verbatim>\<open>d_cq - d_cq_ic\<close> and \<^verbatim>\<open>fc\<close> is 2 to the power of minus
  \<^verbatim>\<open>dd_cq\<close>; on a row of the calibrator whose target is not a control and whose
  \<^verbatim>\<open>d_cq\<close> is finite, \<^verbatim>\<open>dd_cq\<close> is 0 and \<^verbatim>\<open>fc\<close> is 1.
\<close>

lemma fold_change_after_the_call:
  assumes "r \<in> set (dd_cqs_steps (delta_table ics rs) ics cal)"
  shows "dd_cq r = fsub (d_cq r) (d_cq_ic r) \<and>
         fc r = pow2 (fneg (dd_cq r)) \<and>
         (dd_cq r = Fin 0 \<longrightarrow> fc r = Fin 1) \<and>
         (dd_cq r = Fin (- 1) \<longrightarrow> fc r = Fin 2) \<and>
         (dd_cq r = Fin 1 \<longrightarrow> fc r = Fin (1 / 2)) \<and>
         (dd_cq r = NaN \<longrightarrow> fc r = NaN) \<and>
         (sample r = cal \<and> target r \<notin> set ics \<and> is_finite (d_cq r) \<longrightarrow>
            dd_cq r = Fin 0 \<and> fc r = Fin 1)"
proof -
  have f: "fc r = pow2 (fneg (dd_cq r))" and d: "dd_cq r = fsub (d_cq r) (d_cq_ic r)"
    using assms by (elim in_dd_cqs_steps; simp)+
  have "sample r = cal \<and> target r \<notin> set ics \<and> is_finite (d_cq r) \<longrightarrow> dd_cq r = Fin 0"
    using calibrator_row[OF assms] by (simp add: is_finite_iff)
  with f d show ?thesis by (simp add: pow2_values)
qed

lemma q_unbound: "load_global module_globals ''q'' = Inl (NameError ''q'')"
  by (simp add: load_global_def module_globals_def)

lemma delta_table_worked_example:
  "delta_table [''Actin''] (rows worked_example) =
     [\<lparr>sample = ''S1'', target = ''Actin'', mean = Fin 20, std = Fin 0, mean_ic = Fin 20, d_cq = NaN\<rparr>,
      \<lparr>sample = ''S1'', target = ''GeneX'', mean = Fin 25, std = Fin 0, mean_ic = Fin 20, d_cq = Fin 5\<rparr>,
      \<lparr>sample = ''Cal'', target = ''Actin'', mean = Fin 19, std = Fin 0, mean_ic = Fin 19, d_cq = NaN\<rparr>,
      \<lparr>sample = ''Cal'', target = ''GeneX'', mean = Fin 24, std = Fin 0, mean_ic = Fin 19, d_cq = Fin 5\<rparr>]"
  unfolding delta_table_def avg_table_worked_example
  by (simp add: delta_row_def assign_d_cq_def ic_mean_def control_target_means_def agg_mean_def)

text \<open>
  On the table of the worked scenario, with the control Actin and the calibrator Cal, the
  statements after the call give \<^verbatim>\<open>dd_cq\<close> 0 and \<^verbatim>\<open>fc\<close> 1 on both GeneX rows.
\<close>

lemma worked_example_after_the_call:
  "map dd_cq (dd_cqs_steps (delta_table [''Actin''] (rows worked_example)) [''Actin''] ''Cal'') =
     [NaN, Fin 0, NaN, Fin 0] \<and>
   map fc (dd_cqs_steps (delta_table [''Actin''] (rows worked_example)) [''Actin''] ''Cal'') =
     [NaN, Fin 1, NaN, Fin 1]"
  unfolding delta_table_worked_example
  by (simp add: dd_cqs_steps_def merge_target_def assign_dd_cq_def)

text \<open>
  C3. The claim is that the table of \<^verbatim>\<open>calculate_dd_cqs\<close> has \<^verbatim>\<open>fc\<close> equal to 2 to the
  power of minus \<^verbatim>\<open>dd_cq\<close> on every row, and \<^verbatim>\<open>dd_cq\<close> 0 and \<^verbatim>\<open>fc\<close> 1 on the rows
  of the calibrator whose target is not a control. In the namespace of the module the call on
  the worked scenario, with the control Actin and the calibrator Cal, returns no table: it
  raises \<^verbatim>\<open>NameError\<close>.
\<close>

theorem calibrator_rows_raise_name_error:
  "calculate_dd_cqs module_globals (DataFrame worked_example) (PyList [''Actin''])
     (PyStr ''Cal'') = Inl (NameError ''q'')"
  by (simp add: calculate_dd_cqs_def q_unbound)

lemma merge_target_Nil: "merge_target left [] = map (\<lambda>r. (r, NaN)) left"
  by (induction left) (simp_all add: merge_target_def)

lemma absent_calibrator_steps:
  assumes "cal \<notin> sample ` set D"
  shows "dd_cqs_steps D ics cal = map (\<lambda>r. assign_dd_cq (r, NaN)) D"
proof -
  from assms have "filter (\<lambda>r. sample r = cal \<and> target r \<notin> set ics) D = []"
    by (auto simp: filter_empty_conv)
  then show ?thesis by (simp add: dd_cqs_steps_def merge_target_Nil comp_def)
qed

lemma samples_delta_table: "sample ` set (delta_table ics rs) = sample ` set rs"
proof -
  have "set (map key_of (delta_table ics rs)) = set (map key_of rs)"
    by (simp only: keys_delta_table set_drop_duplicates)
  then have "key_of ` set (delta_table ics rs) = key_of ` set rs"
    by (simp only: set_map)
  then have "fst ` key_of ` set (delta_table ics rs) = fst ` key_of ` set rs"
    by (rule arg_cong)
  then show ?thesis by (simp only: image_image key_of_def fst_conv)
qed

text \<open>
  What the statements after the call do when the calibrator matches no sample: one row per
  pair, \<^verbatim>\<open>dd_cq\<close> and \<^verbatim>\<open>fc\<close> NaN on every row.
\<close>

lemma absent_calibrator_after_the_call:
  assumes "has_columns df" and "map_of g ''q'' = Some (Module ''qpycr'')"
    and "cal \<notin> sample ` set (rows df)"
  shows "\<exists>out. calculate_dd_cqs g (DataFrame df) (PyList ics) (PyStr cal) = Inr out \<and>
     length out = length (drop_duplicates (map key_of (rows df))) \<and>
     (\<forall>r \<in> set out. dd_cq r = NaN \<and> fc r = NaN)"
proof -
  from assms(3) have "cal \<notin> sample ` set (delta_table ics (rows df))"
    unfolding samples_delta_table .
  then have s: "dd_cqs_steps (delta_table ics (rows df)) ics cal =
      map (\<lambda>r. assign_dd_cq (r, NaN)) (delta_table ics (rows df))"
    by (rule absent_calibrator_steps)
  have "length (delta_table ics (rows df)) = length (drop_duplicates (map key_of (rows df)))"
    by (simp add: delta_table_def avg_table_def)
  then show ?thesis
    unfolding calculate_dd_cqs_steps[OF assms(1,2)] s by simp
qed

text \<open>
  C7. The claim is that \<^verbatim>\<open>calculate_dd_cqs\<close> returns a table with \<^verbatim>\<open>dd_cq\<close> and
  \<^verbatim>\<open>fc\<close> NaN on every row when the calibrator matches no sample. In the namespace of the
  module the call on the worked scenario with the calibrator Zed raises \<^verbatim>\<open>NameError\<close>.
\<close>

theorem absent_calibrator_raises_name_error:
  "calculate_dd_cqs module_globals (DataFrame worked_example) (PyList [''Actin''])
     (PyStr ''Zed'') = Inl (NameError ''q'')"
  by (simp add: calculate_dd_cqs_def q_unbound)

text \<open>
  C9. In the namespace of the module, \<^verbatim>\<open>calculate_dd_cqs\<close> raises \<^verbatim>\<open>NameError\<close> for
  the name \<^verbatim>\<open>q\<close> on every input that passes the three type checks, and it returns a
  table on no input.
\<close>

theorem dd_cqs_always_name_error:
  "calculate_dd_cqs module_globals (DataFrame df) (PyList ics) (PyStr cal) =
     Inl (NameError ''q'') \<and>
   (\<forall>a b c out. calculate_dd_cqs module_globals a b c \<noteq> Inr out)"
  by (auto simp: calculate_dd_cqs_def q_unbound split: pyval.splits)

text \<open>
  C6, as amended. An argument of the wrong type raises \<^verbatim>\<open>TypeError\<close> before anything is
  computed: \<^verbatim>\<open>cqs\<close> that is not a data frame in the three functions,
  \<^verbatim>\<open>internal_controls\<close> that is not a list in \<^verbatim>\<open>calculate_d_cqs\<close> and
  \<^verbatim>\<open>calculate_dd_cqs\<close>, \<^verbatim>\<open>calibrator\<close> that is not a string in
  \<^verbatim>\<open>calculate_dd_cqs\<close>, whatever \<^verbatim>\<open>q\<close> names. A data frame without one of the three
  columns passes the type check; \<^verbatim>\<open>calculate_avg_cqs\<close> and \<^verbatim>\<open>calculate_d_cqs\<close> then
  raise the \<^verbatim>\<open>KeyError\<close> of the group-by.
\<close>

theorem argument_type_checks:
  "((\<forall>df. cqs \<noteq> DataFrame df) \<longrightarrow>
      is_TypeError (calculate_avg_cqs cqs) \<and> is_TypeError (calculate_d_cqs cqs ics) \<and>
      is_TypeError (calculate_dd_cqs g cqs ics cal)) \<and>
   ((\<forall>l. ics \<noteq> PyList l) \<longrightarrow>
      is_TypeError (calculate_d_cqs cqs ics) \<and> is_TypeError (calculate_dd_cqs g cqs ics cal)) \<and>
   ((\<forall>c. cal \<noteq> PyStr c) \<longrightarrow> is_TypeError (calculate_dd_cqs g cqs ics cal)) \<and>
   (\<not> has_columns frame \<longrightarrow>
      (\<exists>c. calculate_avg_cqs (DataFrame frame) = Inl (KeyError c) \<and>
           calculate_d_cqs (DataFrame frame) (PyList l') = Inl (KeyError c)))"
proof (intro conjI impI)
  assume "\<forall>df. cqs \<noteq> DataFrame df"
  then show "is_TypeError (calculate_avg_cqs cqs)" "is_TypeError (calculate_d_cqs cqs ics)"
    "is_TypeError (calculate_dd_cqs g cqs ics cal)"
    by (cases cqs; simp add: calculate_avg_cqs_def calculate_d_cqs_def calculate_dd_cqs_def)+
next
  assume "\<forall>l. ics \<noteq> PyList l"
  then show "is_TypeError (calculate_d_cqs cqs ics)" "is_TypeError (calculate_dd_cqs g cqs ics cal)"
    by (cases cqs; cases ics; simp add: calculate_d_cqs_def calculate_dd_cqs_def)+
next
  assume "\<forall>c. cal \<noteq> PyStr c"
  then show "is_TypeError (calculate_dd_cqs g cqs ics cal)"
    by (cases cqs; cases ics; cases cal; simp add: calculate_dd_cqs_def)
next
  assume "\<not> has_columns frame"
  then show "\<exists>c. calculate_avg_cqs (DataFrame frame) = Inl (KeyError c) \<and>
           calculate_d_cqs (DataFrame frame) (PyList l') = Inl (KeyError c)"
    by (auto simp: has_columns_def calculate_avg_cqs_def calculate_d_cqs_def groupby_agg_def)
qed

text \<open>
  C6 as stated fails: a data frame without the column \<^verbatim>\<open>cq\<close> is not rejected by the
  argument check; the error is the \<^verbatim>\<open>KeyError\<close> of the aggregation.
\<close>

theorem missing_column_is_key_error:
  "calculate_avg_cqs (DataFrame missing_cq_example) = Inl (KeyError ''cq'') \<and>
   calculate_d_cqs (DataFrame missing_cq_example) (PyList [''Actin'']) = Inl (KeyError ''cq'')"
  by (simp add: missing_cq_example_def calculate_avg_cqs_def calculate_d_cqs_def groupby_agg_def)

text \<open>
  A plain list where the table is expected, a string where the list of controls is
  expected, a list where the calibrator is expected, and the frame without \<^verbatim>\<open>cq\<close>.
\<close>

theorem argument_type_checks_witness:
  "is_TypeError (calculate_avg_cqs (PyList [''S1'', ''T1''])) \<and>
   is_TypeError (calculate_d_cqs (PyList [''S1'', ''T1'']) (PyList [''Actin''])) \<and>
   is_TypeError (calculate_dd_cqs module_globals (PyList [''S1'', ''T1'']) (PyList [''Actin'']) (PyStr ''Cal'')) \<and>
   is_TypeError (calculate_d_cqs (DataFrame worked_example) (PyStr ''Actin'')) \<and>
   is_TypeError (calculate_dd_cqs module_globals (DataFrame worked_example) (PyStr ''Actin'') (PyStr ''Cal'')) \<and>
   is_TypeError (calculate_dd_cqs module_globals (DataFrame worked_example) (PyList [''Actin'']) (PyList [''Cal''])) \<and>
   \<not> has_columns missing_cq_example \<and>
   (\<exists>c. calculate_avg_cqs (DataFrame missing_cq_example) = Inl (KeyError c))"
proof -
  have a: "\<forall>df. PyList [''S1'', ''T1''] \<noteq> DataFrame df" by simp
  have b: "\<forall>l. PyStr ''Actin'' \<noteq> PyList l" by simp
  have c: "\<forall>c. PyList [''Cal''] \<noteq> PyStr c" by simp
  have d: "\<not> has_columns missing_cq_example"
    by (simp add: has_columns_def missing_cq_example_def)
  note t1 = argument_type_checks[of "PyList [''S1'', ''T1'']" "PyList [''Actin'']" module_globals
      "PyStr ''Cal''" missing_cq_example "[]", THEN conjunct1, THEN mp, OF a]
  note t2 = argument_type_checks[of "DataFrame worked_example" "PyStr ''Actin''" module_globals
      "PyStr ''Cal''" missing_cq_example "[]", THEN conjunct2, THEN conjunct1, THEN mp, OF b]
  note t3 = argument_type_checks[of "DataFrame worked_example" "PyList [''Actin'']" module_globals
      "PyList [''Cal'']" missing_cq_example "[]", THEN conjunct2, THEN conjunct2, THEN conjunct1,
      THEN mp, OF c]
  note t4 = argument_type_checks[of "DataFrame worked_example" "PyList [''Actin'']" module_globals
      "PyList [''Cal'']" missing_cq_example "[]", THEN conjunct2, THEN conjunct2, THEN conjunct2,
      THEN mp, OF d]
  from t4 have "\<exists>c. calculate_avg_cqs (DataFrame missing_cq_example) = Inl (KeyError c)"
    by blast
  with t1 t2 t3 d show ?thesis by (intro conjI) simp_all
qed

end
